theory Spec2Isabelle
  imports Complex_Main "HOL-Library.Word" "HOL-Library.Stream" "HOL-Library.AList"
begin

section \<open>The puzzle generator of src/utils/puzzleGenerator.js\<close>

text \<open>
  The module is embedded function by function. What the embedding fixes:
  \<^item> a JavaScript string is the list of its UTF-16 code units, so \<open>length\<close> is the
    \<open>.length\<close> of the source; the letters with diacritics of the tables are single code
    units (U+00D1, U+00C9, U+00C8, U+00CA, U+00C7);
  \<^item> an object literal is an association list in insertion order, which is the order of
    \<open>for ... in\<close> and of \<open>Object.keys\<close> for keys that are not array indices; a property
    read is \<open>map_of\<close>, and \<open>None\<close> is \<open>undefined\<close> (only own properties are modelled,
    not the names inherited from \<open>Object.prototype\<close>);
  \<^item> a JavaScript number is a real number in the board generator: the tables' decimals
    and the sums are exact there, where the source rounds to doubles; the sampler
    \<open>getRandomLetter\<close> and the loops inside it are written for every type of numbers with
    0, addition, multiplication, division and comparison, the only operations they use,
    and are read on reals and on doubles alike;
  \<^item> the module's global objects and \<open>Math\<close> are fields of a state that every operation
    takes and returns; \<open>Math.random()\<close> reads the head of a stream of draws;
  \<^item> an exception is the value \<open>Inl TypeError\<close>, returned with the state at the throw;
  \<^item> \<open>rows\<close> and \<open>cols\<close> are integers, a language code and a letter are strings, the
    two probabilities are numbers, and an argument or an option that is left out is \<open>None\<close>.
\<close>

subsection \<open>Values\<close>

type_synonym jsstring = "16 word list"

definition ascii :: "string \<Rightarrow> jsstring" where
  "ascii cs = map (\<lambda>c. of_nat (of_char c)) cs"

datatype error = TypeError

type_synonym 'n weights = "(jsstring \<times> 'n) list"

type_synonym freq_table = "real weights"

text \<open>A cell of a board: a string, or \<open>None\<close> for \<open>undefined\<close> (an array read out of range).\<close>

type_synonym cell = "jsstring option"

type_synonym board = "cell list list"

record 'n module_state =
  letterFrequencies :: "(jsstring \<times> 'n weights) list"
  vowels :: "(jsstring \<times> jsstring list) list"
  Math_seedrandom :: "int option"
  Math_random_source :: "'n stream"

type_synonym js_state = "real module_state"

text \<open>The tables as the module's top level creates them (lines 6-32).\<close>

definition letterFrequencies_en :: freq_table where
  "letterFrequencies_en =
    [(ascii ''A'', 8.2), (ascii ''B'', 1.5), (ascii ''C'', 2.8), (ascii ''D'', 4.3),
     (ascii ''E'', 12.7), (ascii ''F'', 2.2), (ascii ''G'', 2.0), (ascii ''H'', 6.1),
     (ascii ''I'', 7.0), (ascii ''J'', 0.2), (ascii ''K'', 0.8), (ascii ''L'', 4.0),
     (ascii ''M'', 2.4), (ascii ''N'', 6.7), (ascii ''O'', 7.5), (ascii ''P'', 1.9),
     (ascii ''Q'', 0.1), (ascii ''R'', 6.0), (ascii ''S'', 6.3), (ascii ''T'', 9.1),
     (ascii ''U'', 2.8), (ascii ''V'', 1.0), (ascii ''W'', 2.4), (ascii ''X'', 0.2),
     (ascii ''Y'', 2.0), (ascii ''Z'', 0.1)]"

definition letterFrequencies_es :: freq_table where
  "letterFrequencies_es =
    [(ascii ''A'', 11.5), (ascii ''B'', 2.2), (ascii ''C'', 4.0), (ascii ''D'', 5.0),
     (ascii ''E'', 12.2), (ascii ''F'', 0.7), (ascii ''G'', 1.0), (ascii ''H'', 0.7),
     (ascii ''I'', 6.2), (ascii ''J'', 0.5), (ascii ''K'', 0.1), (ascii ''L'', 5.0),
     (ascii ''M'', 3.2), (ascii ''N'', 7.0), (ascii ''O'', 8.7), (ascii ''P'', 2.5),
     (ascii ''Q'', 0.9), (ascii ''R'', 6.5), (ascii ''S'', 7.3), (ascii ''T'', 4.6),
     (ascii ''U'', 3.9), (ascii ''V'', 1.0), (ascii ''W'', 0.1), (ascii ''X'', 0.2),
     (ascii ''Y'', 1.0), (ascii ''Z'', 0.5), ([0xD1], 0.2)]"

definition letterFrequencies_fr :: freq_table where
  "letterFrequencies_fr =
    [(ascii ''A'', 7.6), (ascii ''B'', 0.9), (ascii ''C'', 3.0), (ascii ''D'', 3.7),
     (ascii ''E'', 14.7), (ascii ''F'', 1.0), (ascii ''G'', 0.9), (ascii ''H'', 0.7),
     (ascii ''I'', 7.5), (ascii ''J'', 0.6), (ascii ''K'', 0.1), (ascii ''L'', 5.5),
     (ascii ''M'', 2.9), (ascii ''N'', 7.1), (ascii ''O'', 5.3), (ascii ''P'', 3.0),
     (ascii ''Q'', 1.4), (ascii ''R'', 6.5), (ascii ''S'', 7.9), (ascii ''T'', 7.2),
     (ascii ''U'', 6.3), (ascii ''V'', 1.8), (ascii ''W'', 0.1), (ascii ''X'', 0.4),
     (ascii ''Y'', 0.3), (ascii ''Z'', 0.1), ([0xC9], 1.9), ([0xC8], 0.3),
     ([0xCA], 0.2), ([0xC7], 0.1)]"

definition initial_letterFrequencies :: "(jsstring \<times> freq_table) list" where
  "initial_letterFrequencies =
    [(ascii ''en'', letterFrequencies_en), (ascii ''es'', letterFrequencies_es),
     (ascii ''fr'', letterFrequencies_fr)]"

definition initial_vowels :: "(jsstring \<times> jsstring list) list" where
  "initial_vowels =
    [(ascii ''en'', [ascii ''A'', ascii ''E'', ascii ''I'', ascii ''O'', ascii ''U'', ascii ''Y'']),
     (ascii ''es'', [ascii ''A'', ascii ''E'', ascii ''I'', ascii ''O'', ascii ''U'']),
     (ascii ''fr'', [ascii ''A'', ascii ''E'', ascii ''I'', ascii ''O'', ascii ''U'', ascii ''Y'',
                    [0xC9], [0xC8], [0xCA]])]"

text \<open>The state after the module is loaded: the tables, no \<open>Math.seedrandom\<close> property.\<close>

definition loaded :: "real stream \<Rightarrow> js_state" where
  "loaded draws =
    \<lparr>letterFrequencies = initial_letterFrequencies, vowels = initial_vowels,
     Math_seedrandom = None, Math_random_source = draws\<rparr>"

subsection \<open>Primitives of the language\<close>

text \<open>\<open>Math.random()\<close>: the next draw. It never reads \<open>Math.seedrandom\<close>.\<close>

definition Math_random :: "'n module_state \<Rightarrow> 'n \<times> 'n module_state" where
  "Math_random s =
    (shd (Math_random_source s), s\<lparr>Math_random_source := stl (Math_random_source s)\<rparr>)"

text \<open>An array read \<open>xs[i]\<close>: \<open>undefined\<close> out of range.\<close>

definition js_index :: "'a list \<Rightarrow> int \<Rightarrow> 'a option" where
  "js_index xs i = (if 0 \<le> i \<and> i < int (length xs) then Some (xs ! nat i) else None)"

text \<open>Truthiness of a property read that holds a number: \<open>undefined\<close> and 0 are falsy.\<close>

fun truthy :: "'a::zero option \<Rightarrow> bool" where
  "truthy None = False"
| "truthy (Some w) = (w \<noteq> 0)"

text \<open>\<open>a || b\<close> where \<open>a\<close> is \<open>undefined\<close> or an object (objects and arrays are truthy).\<close>

fun or_else :: "'a option \<Rightarrow> 'a option \<Rightarrow> 'a option" where
  "or_else (Some a) b = Some a"
| "or_else None b = b"

subsection \<open>getRandomLetter (lines 40-95)\<close>

text \<open>
  Lines 50-55: the loop over \<open>langVowels\<close> that fills \<open>vowelFreq\<close> and sums \<open>totalFreq\<close>.
  \<open>freq\<close> is \<open>None\<close> when neither the language nor \<open>en\<close> has a table; reading a property
  of it throws.
\<close>

fun extract_vowels ::
  "'n::{zero,plus} weights option \<Rightarrow> jsstring list \<Rightarrow> 'n weights \<times> 'n
     \<Rightarrow> error + 'n weights \<times> 'n" where
  "extract_vowels freq [] (vowelFreq, totalFreq) = Inr (vowelFreq, totalFreq)"
| "extract_vowels None (vowel # rest) (vowelFreq, totalFreq) = Inl TypeError"
| "extract_vowels (Some f) (vowel # rest) (vowelFreq, totalFreq) =
     (if truthy (map_of f vowel)
      then (case map_of f vowel of
              Some w \<Rightarrow> extract_vowels (Some f) rest (AList.update vowel w vowelFreq, totalFreq + w)
            | None \<Rightarrow> extract_vowels (Some f) rest (vowelFreq, totalFreq))
      else extract_vowels (Some f) rest (vowelFreq, totalFreq))"

text \<open>
  Lines 58-60: every entry of \<open>vowelFreq\<close> divided by \<open>totalFreq\<close>. Where \<open>totalFreq\<close> is 0
  the source produces infinities or NaN and HOL's division produces 0; the weights of the
  module's tables are positive, so that \<open>totalFreq\<close> is not 0 there.
\<close>

definition normalize :: "'n::inverse weights \<Rightarrow> 'n \<Rightarrow> 'n weights" where
  "normalize vowelFreq totalFreq = map (\<lambda>(vowel, w). (vowel, w / totalFreq)) vowelFreq"

text \<open>Lines 66-71 and 86-91: the cumulative walk; \<open>None\<close> when the loop ends without returning.\<close>

fun walk :: "'n::{plus,ord} \<Rightarrow> 'n \<Rightarrow> 'n weights \<Rightarrow> jsstring option" where
  "walk random cumulativeProb [] = None"
| "walk random cumulativeProb ((letter, w) # rest) =
     (if random \<le> cumulativeProb + w then Some letter
      else walk random (cumulativeProb + w) rest)"

text \<open>
  The function is private to the module and its one call site passes both arguments, so
  the parameter defaults are never used. \<open>for ... in\<close> over \<open>undefined\<close> runs no iteration,
  \<open>for ... of\<close> over \<open>undefined\<close> throws.
\<close>

definition getRandomLetter ::
  "jsstring \<Rightarrow> bool \<Rightarrow> 'n::{zero,plus,times,inverse,ord} module_state
     \<Rightarrow> (error + cell) \<times> 'n module_state" where
  "getRandomLetter language ensureVowel s =
    (let freq = or_else (map_of (letterFrequencies s) language)
                        (map_of (letterFrequencies s) (ascii ''en''))
     in if ensureVowel then
          (case or_else (map_of (vowels s) language) (map_of (vowels s) (ascii ''en'')) of
             None \<Rightarrow> (Inl TypeError, s)
           | Some langVowels \<Rightarrow>
               (case extract_vowels freq langVowels ([], 0) of
                  Inl e \<Rightarrow> (Inl e, s)
                | Inr (vowelFreq0, totalFreq) \<Rightarrow>
                    (let vowelFreq = normalize vowelFreq0 totalFreq;
                         (random, s1) = Math_random s
                     in case walk random 0 vowelFreq of
                          Some letter \<Rightarrow> (Inr (Some letter), s1)
                        | None \<Rightarrow> (Inr (js_index langVowels 0), s1))))
        else
          (let entries = (case freq of None \<Rightarrow> [] | Some f \<Rightarrow> f);
               totalFreq = foldl (\<lambda>total (letter, w). total + w) 0 entries;
               (r, s1) = Math_random s;
               random = r * totalFreq
           in case walk random 0 entries of
                Some letter \<Rightarrow> (Inr (Some letter), s1)
              | None \<Rightarrow> (Inr (Some (ascii ''E'')), s1)))"

subsection \<open>generateBoard (lines 104-146)\<close>

record options =
  opt_language :: "jsstring option"
  opt_vowelProbability :: "real option"
  opt_specialLetterProbability :: "real option"

text \<open>Line 126: the keys of \<open>letterFrequencies\<close> other than the board's language.\<close>

definition other_languages :: "js_state \<Rightarrow> jsstring \<Rightarrow> jsstring list" where
  "other_languages s language = filter (\<lambda>lang. lang \<noteq> language) (map fst (letterFrequencies s))"

text \<open>
  Line 132, the filter's callback run over the keys of the other table in order:
  \<open>letterFrequencies[language][char]\<close> is read only when \<open>char.length > 1\<close> is false, and
  throws when the board's language has no table.
\<close>

fun special_filter :: "freq_table option \<Rightarrow> jsstring list \<Rightarrow> error + jsstring list" where
  "special_filter main [] = Inr []"
| "special_filter main (char # rest) =
     (if length char > 1
      then (case special_filter main rest of Inl e \<Rightarrow> Inl e | Inr keep \<Rightarrow> Inr (char # keep))
      else (case main of
              None \<Rightarrow> Inl TypeError
            | Some f \<Rightarrow>
                (case special_filter main rest of
                   Inl e \<Rightarrow> Inl e
                 | Inr keep \<Rightarrow> Inr (if \<not> truthy (map_of f char) then char # keep else keep))))"

text \<open>Lines 131-132: \<open>Object.keys(undefined)\<close> throws.\<close>

definition specialLetters :: "js_state \<Rightarrow> jsstring \<Rightarrow> jsstring option \<Rightarrow> error + jsstring list" where
  "specialLetters s language otherLang =
    (case Option.bind otherLang (map_of (letterFrequencies s)) of
       None \<Rightarrow> Inl TypeError
     | Some other \<Rightarrow> special_filter (map_of (letterFrequencies s) language) (map fst other))"

text \<open>Lines 118-121: the base letter of a cell.\<close>

definition base_letter :: "jsstring \<Rightarrow> real \<Rightarrow> js_state \<Rightarrow> (error + cell) \<times> js_state" where
  "base_letter language vowelProbability s =
    (let (r, s1) = Math_random s;
         forceVowel = r < vowelProbability
     in getRandomLetter language forceVowel s1)"

text \<open>Lines 124-138: the substitution of a special letter for the base letter.\<close>

definition substitute_special ::
  "jsstring \<Rightarrow> real \<Rightarrow> cell \<Rightarrow> js_state \<Rightarrow> (error + cell) \<times> js_state" where
  "substitute_special language specialLetterProbability letter s =
    (let (r, s1) = Math_random s
     in if r < specialLetterProbability then
          (let languages = other_languages s1 language
           in if length languages > 0 then
                (let (r2, s2) = Math_random s1;
                     otherLang = js_index languages \<lfloor>r2 * real (length languages)\<rfloor>
                 in case specialLetters s2 language otherLang of
                      Inl e \<Rightarrow> (Inl e, s2)
                    | Inr special \<Rightarrow>
                        if length special > 0 then
                          (let (r3, s3) = Math_random s2
                           in (Inr (js_index special \<lfloor>r3 * real (length special)\<rfloor>), s3))
                        else (Inr letter, s2))
              else (Inr letter, s1))
        else (Inr letter, s1))"

text \<open>The body of the inner loop (lines 117-140), up to the \<open>push\<close>.\<close>

definition gen_cell :: "jsstring \<Rightarrow> real \<Rightarrow> real \<Rightarrow> js_state \<Rightarrow> (error + cell) \<times> js_state" where
  "gen_cell language vowelProbability specialLetterProbability s =
    (case base_letter language vowelProbability s of
       (Inl e, s1) \<Rightarrow> (Inl e, s1)
     | (Inr letter, s1) \<Rightarrow> substitute_special language specialLetterProbability letter s1)"

text \<open>The inner loop \<open>for (let j = 0; j < cols; j++)\<close>, from \<open>j\<close> with the row built so far.\<close>

function row_loop ::
  "int \<Rightarrow> int \<Rightarrow> jsstring \<Rightarrow> real \<Rightarrow> real \<Rightarrow> cell list \<Rightarrow> js_state \<Rightarrow> (error + cell list) \<times> js_state" where
  "row_loop j cols language vp sp row s =
    (if j < cols then
       (case gen_cell language vp sp s of
          (Inl e, s1) \<Rightarrow> (Inl e, s1)
        | (Inr letter, s1) \<Rightarrow> row_loop (j + 1) cols language vp sp (row @ [letter]) s1)
     else (Inr row, s))"
  by pat_completeness auto
termination
  by (relation "measure (\<lambda>(j, cols, language, vp, sp, row, s). nat (cols - j))") auto

declare row_loop.simps [simp del]

text \<open>The outer loop \<open>for (let i = 0; i < rows; i++)\<close>.\<close>

function board_loop ::
  "int \<Rightarrow> int \<Rightarrow> int \<Rightarrow> jsstring \<Rightarrow> real \<Rightarrow> real \<Rightarrow> board \<Rightarrow> js_state \<Rightarrow> (error + board) \<times> js_state" where
  "board_loop i rows cols language vp sp board s =
    (if i < rows then
       (case row_loop 0 cols language vp sp [] s of
          (Inl e, s1) \<Rightarrow> (Inl e, s1)
        | (Inr row, s1) \<Rightarrow> board_loop (i + 1) rows cols language vp sp (board @ [row]) s1)
     else (Inr board, s))"
  by pat_completeness auto
termination
  by (relation "measure (\<lambda>(i, rows, cols, language, vp, sp, board, s). nat (rows - i))") auto

declare board_loop.simps [simp del]

text \<open>
  The parameter defaults (\<open>rows = 6, cols = 6, options = {}\<close>) and the defaults of the
  destructuring apply when the argument or the property is \<open>undefined\<close>, here \<open>None\<close>.
\<close>

definition default_to :: "'a \<Rightarrow> 'a option \<Rightarrow> 'a" where
  "default_to d v = (case v of None \<Rightarrow> d | Some x \<Rightarrow> x)"

definition empty_options :: options where
  "empty_options =
    \<lparr>opt_language = None, opt_vowelProbability = None, opt_specialLetterProbability = None\<rparr>"

definition generateBoard ::
  "int option \<Rightarrow> int option \<Rightarrow> options option \<Rightarrow> js_state \<Rightarrow> (error + board) \<times> js_state" where
  "generateBoard rows_arg cols_arg options_arg s =
    (let rows = default_to 6 rows_arg;
         cols = default_to 6 cols_arg;
         opts = default_to empty_options options_arg;
         language = default_to (ascii ''en'') (opt_language opts);
         vowelProbability = default_to 0.35 (opt_vowelProbability opts);
         specialLetterProbability = default_to 0.15 (opt_specialLetterProbability opts)
     in board_loop 0 rows cols language vowelProbability specialLetterProbability [] s)"

subsection \<open>generateDailyPuzzle (lines 152-166)\<close>

text \<open>What \<open>new Date()\<close> gives: the local calendar date, the month counted from 0.\<close>

record date =
  getFullYear :: int
  getMonth :: int
  getDate :: int

definition daily_seed :: "date \<Rightarrow> int" where
  "daily_seed today = getFullYear today * 10000 + (getMonth today + 1) * 100 + getDate today"

definition generateDailyPuzzle :: "date \<Rightarrow> js_state \<Rightarrow> (error + board) \<times> js_state" where
  "generateDailyPuzzle today s =
    (let seed = daily_seed today;
         s1 = s\<lparr>Math_seedrandom := Some seed\<rparr>
     in generateBoard (Some 6) (Some 6)
          (Some \<lparr>opt_language = Some (ascii ''en''), opt_vowelProbability = Some 0.4,
                 opt_specialLetterProbability = Some 0.2\<rparr>) s1)"

subsection \<open>getLetterPoints (lines 174-188)\<close>

definition commonScoring :: "(jsstring \<times> int) list" where
  "commonScoring =
    [(ascii ''A'', 1), (ascii ''B'', 3), (ascii ''C'', 3), (ascii ''D'', 2), (ascii ''E'', 1),
     (ascii ''F'', 4), (ascii ''G'', 2), (ascii ''H'', 4), (ascii ''I'', 1), (ascii ''J'', 8),
     (ascii ''K'', 5), (ascii ''L'', 1), (ascii ''M'', 3), (ascii ''N'', 1), (ascii ''O'', 1),
     (ascii ''P'', 3), (ascii ''Q'', 10), (ascii ''R'', 1), (ascii ''S'', 1), (ascii ''T'', 1),
     (ascii ''U'', 1), (ascii ''V'', 4), (ascii ''W'', 4), (ascii ''X'', 8), (ascii ''Y'', 4),
     (ascii ''Z'', 10)]"

text \<open>The table is local to the call; \<open>language\<close> takes its default and is not read again.\<close>

definition getLetterPoints :: "jsstring \<Rightarrow> jsstring option \<Rightarrow> int" where
  "getLetterPoints letter language_arg =
    (let language = default_to (ascii ''en'') language_arg
     in if length letter > 1 \<or> \<not> truthy (map_of commonScoring letter) then 8
        else (case map_of commonScoring letter of
                Some points \<Rightarrow> if points \<noteq> 0 then points else 2
              | None \<Rightarrow> 2))"

subsection \<open>The module's operations as steps on the state\<close>

datatype call =
  GetRandomLetter jsstring bool
| GenerateBoard "int option" "int option" "options option"
| GenerateDailyPuzzle date
| GetLetterPoints jsstring "jsstring option"

datatype outcome =
  Letter cell
| Board board
| Points int
| Raised error

fun run :: "call \<Rightarrow> js_state \<Rightarrow> outcome \<times> js_state" where
  "run (GetRandomLetter language ensureVowel) s =
     (case getRandomLetter language ensureVowel s of
        (Inl e, s1) \<Rightarrow> (Raised e, s1) | (Inr letter, s1) \<Rightarrow> (Letter letter, s1))"
| "run (GenerateBoard rows cols opts) s =
     (case generateBoard rows cols opts s of
        (Inl e, s1) \<Rightarrow> (Raised e, s1) | (Inr b, s1) \<Rightarrow> (Board b, s1))"
| "run (GenerateDailyPuzzle today) s =
     (case generateDailyPuzzle today s of
        (Inl e, s1) \<Rightarrow> (Raised e, s1) | (Inr b, s1) \<Rightarrow> (Board b, s1))"
| "run (GetLetterPoints letter language) s = (Points (getLetterPoints letter language), s)"

subsection \<open>Vocabulary of the properties\<close>

text \<open>The state after \<open>n\<close> calls of \<open>Math.random()\<close> and nothing else.\<close>

definition consumed :: "nat \<Rightarrow> 'n module_state \<Rightarrow> 'n module_state" where
  "consumed n s = s\<lparr>Math_random_source := sdrop n (Math_random_source s)\<rparr>"

text \<open>The contract of \<open>Math.random()\<close>: every draw is at least 0 and less than 1.\<close>

definition draws_in_unit :: "js_state \<Rightarrow> bool" where
  "draws_in_unit s = (\<forall>x \<in> sset (Math_random_source s). 0 \<le> x \<and> x < 1)"

text \<open>The language codes that have a table.\<close>

definition supported :: "jsstring set" where
  "supported = {ascii ''en'', ascii ''es'', ascii ''fr''}"

text \<open>A state that holds the module's tables and a random source within its contract.\<close>

definition ready :: "js_state \<Rightarrow> bool" where
  "ready s = (letterFrequencies s = initial_letterFrequencies \<and> vowels s = initial_vowels
     \<and> draws_in_unit s)"

definition en_vowels :: "jsstring set" where
  "en_vowels = {ascii ''A'', ascii ''E'', ascii ''I'', ascii ''O'', ascii ''U'', ascii ''Y''}"

text \<open>
  Line 128 read in the state \<open>s1\<close> it runs in, after the draw of line 124: the other
  language that the next draw selects.
\<close>

definition chosen_otherLang :: "js_state \<Rightarrow> jsstring \<Rightarrow> jsstring option" where
  "chosen_otherLang s1 language =
    js_index (other_languages s1 language)
      \<lfloor>shd (Math_random_source s1) * real (length (other_languages s1 language))\<rfloor>"

text \<open>A state whose table set holds one language only.\<close>

definition single_language :: "real stream \<Rightarrow> js_state" where
  "single_language draws =
    \<lparr>letterFrequencies = [(ascii ''en'', letterFrequencies_en)], vowels = initial_vowels,
     Math_seedrandom = None, Math_random_source = draws\<rparr>"

subsection \<open>Numbers as doubles\<close>

text \<open>
  A finite double that is not negative: \<open>Double m e\<close> is the number \<open>m * 2^e\<close>, with a
  mantissa of exactly 53 bits for every number but 0, which is \<open>Double 0 0\<close>. The weights
  and the draws of the module, their sums, products and quotients are such numbers. The
  exponent is not bounded: overflow and the subnormal range, far from every number of the
  module, are not modelled, nor are negative numbers, infinities and NaN (a division by
  zero is given the value 0).
\<close>

datatype double = Double int int

text \<open>The number of bits of a positive integer.\<close>

function bit_length :: "int \<Rightarrow> nat" where
  "bit_length n = (if 0 < n then Suc (bit_length (n div 2)) else 0)"
  by pat_completeness auto
termination
  by (relation "measure nat") auto

declare bit_length.simps [simp del]

text \<open>
  The double nearest to \<open>n * 2^e\<close> for a positive integer \<open>n\<close>, a tie going to the even
  mantissa: the rounding that the language prescribes for every arithmetic operation and
  for reading a literal.
\<close>

definition round_nearest_even :: "int \<Rightarrow> int \<Rightarrow> double" where
  "round_nearest_even n e =
    (let b = int (bit_length n)
     in if n \<le> 0 then Double 0 0
        else if b \<le> 53 then Double (n * 2 ^ nat (53 - b)) (e - (53 - b))
        else
          (let sh = nat (b - 53);
               q = n div 2 ^ sh;
               r = n mod 2 ^ sh;
               half = 2 ^ (sh - 1);
               q' = (if half < r \<or> (r = half \<and> odd q) then q + 1 else q)
           in if q' = 2 ^ 53 then Double (2 ^ 52) (e + int sh + 1)
              else Double q' (e + int sh)))"

text \<open>
  The operations round the exact result. A quotient is rounded from at least 56 of its
  leading bits and one more bit that tells whether the division left a remainder.
\<close>

instantiation double :: "{zero, one, plus, times, inverse, ord}"
begin

definition zero_double :: double where
  "zero_double = Double 0 0"

definition one_double :: double where
  "one_double = Double (2 ^ 52) (- 52)"

fun plus_double :: "double \<Rightarrow> double \<Rightarrow> double" where
  "plus_double (Double m1 e1) (Double m2 e2) =
     (let e = min e1 e2
      in round_nearest_even (m1 * 2 ^ nat (e1 - e) + m2 * 2 ^ nat (e2 - e)) e)"

fun times_double :: "double \<Rightarrow> double \<Rightarrow> double" where
  "times_double (Double m1 e1) (Double m2 e2) = round_nearest_even (m1 * m2) (e1 + e2)"

fun divide_double :: "double \<Rightarrow> double \<Rightarrow> double" where
  "divide_double (Double m1 e1) (Double m2 e2) =
     (if m2 \<le> 0 then Double 0 0
      else
        (let k = 55 + bit_length m2;
             q = (m1 * 2 ^ k) div m2;
             r = (m1 * 2 ^ k) mod m2;
             n = 2 * q + (if r = 0 then 0 else 1)
         in round_nearest_even n (e1 - e2 - int k - 1)))"

definition inverse_double :: "double \<Rightarrow> double" where
  "inverse_double x = divide (Double (2 ^ 52) (- 52)) x"

fun less_eq_double :: "double \<Rightarrow> double \<Rightarrow> bool" where
  "less_eq_double (Double m1 e1) (Double m2 e2) =
     (let e = min e1 e2 in m1 * 2 ^ nat (e1 - e) \<le> m2 * 2 ^ nat (e2 - e))"

fun less_double :: "double \<Rightarrow> double \<Rightarrow> bool" where
  "less_double (Double m1 e1) (Double m2 e2) =
     (let e = min e1 e2 in m1 * 2 ^ nat (e1 - e) < m2 * 2 ^ nat (e2 - e))"

instance ..

end


text \<open>
  The tables of lines 6-25 with the reading of the literals left open: \<open>lit 82 10\<close> is
  the number that the literal \<open>8.2\<close> denotes. With exact division they are the tables
  \<open>letterFrequencies_en\<close>, \<open>letterFrequencies_es\<close> and \<open>letterFrequencies_fr\<close> above, with
  \<open>decimal\<close> they are the tables that the program holds.
\<close>

definition letterFrequencies_en_read :: "(nat \<Rightarrow> nat \<Rightarrow> 'n) \<Rightarrow> 'n weights" where
  "letterFrequencies_en_read lit =
    [(ascii ''A'', lit 82 10), (ascii ''B'', lit 15 10), (ascii ''C'', lit 28 10),
     (ascii ''D'', lit 43 10), (ascii ''E'', lit 127 10), (ascii ''F'', lit 22 10),
     (ascii ''G'', lit 20 10), (ascii ''H'', lit 61 10), (ascii ''I'', lit 70 10),
     (ascii ''J'', lit 2 10), (ascii ''K'', lit 8 10), (ascii ''L'', lit 40 10),
     (ascii ''M'', lit 24 10), (ascii ''N'', lit 67 10), (ascii ''O'', lit 75 10),
     (ascii ''P'', lit 19 10), (ascii ''Q'', lit 1 10), (ascii ''R'', lit 60 10),
     (ascii ''S'', lit 63 10), (ascii ''T'', lit 91 10), (ascii ''U'', lit 28 10),
     (ascii ''V'', lit 10 10), (ascii ''W'', lit 24 10), (ascii ''X'', lit 2 10),
     (ascii ''Y'', lit 20 10), (ascii ''Z'', lit 1 10)]"

definition letterFrequencies_es_read :: "(nat \<Rightarrow> nat \<Rightarrow> 'n) \<Rightarrow> 'n weights" where
  "letterFrequencies_es_read lit =
    [(ascii ''A'', lit 115 10), (ascii ''B'', lit 22 10), (ascii ''C'', lit 40 10),
     (ascii ''D'', lit 50 10), (ascii ''E'', lit 122 10), (ascii ''F'', lit 7 10),
     (ascii ''G'', lit 10 10), (ascii ''H'', lit 7 10), (ascii ''I'', lit 62 10),
     (ascii ''J'', lit 5 10), (ascii ''K'', lit 1 10), (ascii ''L'', lit 50 10),
     (ascii ''M'', lit 32 10), (ascii ''N'', lit 70 10), (ascii ''O'', lit 87 10),
     (ascii ''P'', lit 25 10), (ascii ''Q'', lit 9 10), (ascii ''R'', lit 65 10),
     (ascii ''S'', lit 73 10), (ascii ''T'', lit 46 10), (ascii ''U'', lit 39 10),
     (ascii ''V'', lit 10 10), (ascii ''W'', lit 1 10), (ascii ''X'', lit 2 10),
     (ascii ''Y'', lit 10 10), (ascii ''Z'', lit 5 10), ([0xD1], lit 2 10)]"

definition letterFrequencies_fr_read :: "(nat \<Rightarrow> nat \<Rightarrow> 'n) \<Rightarrow> 'n weights" where
  "letterFrequencies_fr_read lit =
    [(ascii ''A'', lit 76 10), (ascii ''B'', lit 9 10), (ascii ''C'', lit 30 10),
     (ascii ''D'', lit 37 10), (ascii ''E'', lit 147 10), (ascii ''F'', lit 10 10),
     (ascii ''G'', lit 9 10), (ascii ''H'', lit 7 10), (ascii ''I'', lit 75 10),
     (ascii ''J'', lit 6 10), (ascii ''K'', lit 1 10), (ascii ''L'', lit 55 10),
     (ascii ''M'', lit 29 10), (ascii ''N'', lit 71 10), (ascii ''O'', lit 53 10),
     (ascii ''P'', lit 30 10), (ascii ''Q'', lit 14 10), (ascii ''R'', lit 65 10),
     (ascii ''S'', lit 79 10), (ascii ''T'', lit 72 10), (ascii ''U'', lit 63 10),
     (ascii ''V'', lit 18 10), (ascii ''W'', lit 1 10), (ascii ''X'', lit 4 10),
     (ascii ''Y'', lit 3 10), (ascii ''Z'', lit 1 10), ([0xC9], lit 19 10),
     ([0xC8], lit 3 10), ([0xCA], lit 2 10), ([0xC7], lit 1 10)]"

definition initial_letterFrequencies_read :: "(nat \<Rightarrow> nat \<Rightarrow> 'n) \<Rightarrow> (jsstring \<times> 'n weights) list" where
  "initial_letterFrequencies_read lit =
    [(ascii ''en'', letterFrequencies_en_read lit), (ascii ''es'', letterFrequencies_es_read lit),
     (ascii ''fr'', letterFrequencies_fr_read lit)]"

definition loaded_read :: "(nat \<Rightarrow> nat \<Rightarrow> 'n) \<Rightarrow> 'n stream \<Rightarrow> 'n module_state" where
  "loaded_read lit draws =
    \<lparr>letterFrequencies = initial_letterFrequencies_read lit, vowels = initial_vowels,
     Math_seedrandom = None, Math_random_source = draws\<rparr>"


text \<open>Lines 46-60: the object \<open>vowelFreq\<close> when the normalization is done.\<close>

definition vowelFreq_normalized :: "'n::{zero,plus,inverse} weights \<Rightarrow> jsstring list \<Rightarrow> 'n weights" where
  "vowelFreq_normalized freq langVowels =
    (case extract_vowels (Some freq) langVowels ([], 0) of
       Inr (vowelFreq, totalFreq) \<Rightarrow> normalize vowelFreq totalFreq
     | Inl e \<Rightarrow> [])"

subsection \<open>The sampler in the words of the specification\<close>

text \<open>
  Section 4.1 of the specification, written without reference to the code, for the
  comparison with \<open>getRandomLetter\<close>, in any arithmetic. Weights are accumulated in table
  order. The cumulative weight of an entry is the sum of the weights up to and including
  it; roulette-wheel selection returns the first entry whose cumulative weight meets or
  exceeds the draw.
\<close>

definition total_weight :: "'n::{zero,plus} weights \<Rightarrow> 'n" where
  "total_weight entries = foldl (+) 0 (map snd entries)"




text \<open>The subset of the vowel set that has a nonzero weight, in the order of the vowel set.\<close>

definition restrict_to :: "jsstring list \<Rightarrow> 'n::zero weights \<Rightarrow> 'n weights" where
  "restrict_to vs entries =
    List.map_filter
      (\<lambda>v. case map_of entries v of
              Some w \<Rightarrow> if w \<noteq> 0 then Some (v, w) else None
            | None \<Rightarrow> None) vs"

text \<open>The weights divided by their sum.\<close>

definition divided_by_total :: "'n::{zero,plus,inverse} weights \<Rightarrow> 'n weights" where
  "divided_by_total entries = map (\<lambda>(v, w). (v, w / total_weight entries)) entries"


section \<open>Properties\<close>

subsection \<open>Draws, walks and array reads\<close>

lemma consumed_0 [simp]: "consumed 0 s = s"
  by (simp add: consumed_def)

lemma consumed_consumed [simp]: "consumed m (consumed n s) = consumed (n + m) s"
  by (simp add: consumed_def)

lemma consumed_fields [simp]:
  "letterFrequencies (consumed n s) = letterFrequencies s"
  "vowels (consumed n s) = vowels s"
  "Math_seedrandom (consumed n s) = Math_seedrandom s"
  "Math_random_source (consumed n s) = sdrop n (Math_random_source s)"
  by (simp_all add: consumed_def)

lemma Math_random_consumed: "Math_random s = (shd (Math_random_source s), consumed 1 s)"
  by (simp add: Math_random_def consumed_def)

lemma sset_sdrop_subset: "sset (sdrop n xs) \<subseteq> sset xs"
proof (induction n arbitrary: xs)
  case 0
  show ?case by simp
next
  case (Suc n)
  have "sset (sdrop n (stl xs)) \<subseteq> sset (stl xs)" by (rule Suc.IH)
  also have "\<dots> \<subseteq> sset xs" by (cases xs) auto
  finally show ?case by simp
qed

lemma draws_in_unit_consumed: "draws_in_unit s \<Longrightarrow> draws_in_unit (consumed n s)"
  using sset_sdrop_subset [of n "Math_random_source s"] by (auto simp: draws_in_unit_def)

lemma draws_in_unit_head: "draws_in_unit s \<Longrightarrow> 0 \<le> shd (Math_random_source s) \<and> shd (Math_random_source s) < 1"
  by (simp add: draws_in_unit_def shd_sset)

lemma walk_in_keys: "walk random c entries = Some letter \<Longrightarrow> letter \<in> fst ` set entries"
proof (induction entries arbitrary: c)
  case Nil
  then show ?case by simp
next
  case (Cons e entries)
  obtain k w where e: "e = (k, w)" by (cases e)
  show ?case
  proof (cases "random \<le> c + w")
    case True
    with Cons.prems e show ?thesis by simp
  next
    case False
    with Cons.prems e have "walk random (c + w) entries = Some letter" by simp
    then have "letter \<in> fst ` set entries" by (rule Cons.IH)
    then show ?thesis by simp
  qed
qed

lemma extract_vowels_Some:
  "\<exists>vowelFreq' totalFreq'. extract_vowels (Some f) vs (vowelFreq, totalFreq) = Inr (vowelFreq', totalFreq')
     \<and> fst ` set vowelFreq' \<subseteq> fst ` set vowelFreq \<union> set vs"
proof (induction vs arbitrary: vowelFreq totalFreq)
  case Nil
  show ?case by simp
next
  case (Cons v vs)
  show ?case
  proof (cases "map_of f v")
    case None
    with Cons.IH [of vowelFreq totalFreq] show ?thesis by auto
  next
    case (Some w)
    show ?thesis
    proof (cases "w = 0")
      case True
      with Some Cons.IH [of vowelFreq totalFreq] show ?thesis by auto
    next
      case False
      with Some Cons.IH [of "AList.update v w vowelFreq" "totalFreq + w"] show ?thesis
        by (auto simp: dom_update)
    qed
  qed
qed

lemma normalize_keys: "fst ` set (normalize vowelFreq totalFreq) = fst ` set vowelFreq"
  by (force simp: normalize_def)

lemma js_index_0: "xs \<noteq> [] \<Longrightarrow> js_index xs 0 = Some (hd xs)"
  by (cases xs) (simp_all add: js_index_def)

lemma js_index_floor:
  assumes "0 \<le> r" "r < 1" "xs \<noteq> []"
  shows "\<exists>x \<in> set xs. js_index xs \<lfloor>r * real (length xs)\<rfloor> = Some x"
proof -
  have pos: "0 < real (length xs)" using assms(3) by simp
  have lo: "0 \<le> \<lfloor>r * real (length xs)\<rfloor>" using assms(1) by simp
  have "r * real (length xs) < real (length xs)" using assms(2) pos by simp
  then have hi: "\<lfloor>r * real (length xs)\<rfloor> < int (length xs)" by linarith
  from lo hi have "nat \<lfloor>r * real (length xs)\<rfloor> < length xs" by linarith
  with lo hi show ?thesis by (auto simp: js_index_def)
qed

subsection \<open>One cell\<close>

lemma getRandomLetter_vowel:
  assumes "or_else (map_of (vowels s) language) (map_of (vowels s) (ascii ''en'')) = Some langVowels"
    and "or_else (map_of (letterFrequencies s) language) (map_of (letterFrequencies s) (ascii ''en'')) = Some f"
    and "langVowels \<noteq> []"
  shows "\<exists>letter \<in> set langVowels. getRandomLetter language True s = (Inr (Some letter), consumed 1 s)"
proof -
  obtain vowelFreq totalFreq where ex: "extract_vowels (Some f) langVowels ([], 0) = Inr (vowelFreq, totalFreq)"
    and keys: "fst ` set vowelFreq \<subseteq> set langVowels"
    using extract_vowels_Some [of f langVowels "[]" 0] by auto
  show ?thesis
  proof (cases "walk (shd (Math_random_source s)) 0 (normalize vowelFreq totalFreq)")
    case None
    with assms ex show ?thesis
      by (simp add: getRandomLetter_def Math_random_consumed js_index_0)
  next
    case (Some letter)
    from walk_in_keys [OF Some] keys have "letter \<in> set langVowels"
      by (auto simp: normalize_keys)
    with assms ex Some show ?thesis
      by (simp add: getRandomLetter_def Math_random_consumed)
  qed
qed

lemma getRandomLetter_general:
  assumes "or_else (map_of (letterFrequencies s) language) (map_of (letterFrequencies s) (ascii ''en'')) = Some f"
  shows "\<exists>letter \<in> insert (ascii ''E'') (fst ` set f).
           getRandomLetter language False s = (Inr (Some letter), consumed 1 s)"
proof (cases "walk (shd (Math_random_source s) * foldl (\<lambda>total (letter, w). total + w) 0 f) 0 f")
  case None
  with assms show ?thesis
    by (simp add: getRandomLetter_def Math_random_consumed)
next
  case (Some letter)
  with assms walk_in_keys [OF Some] show ?thesis
    by (simp add: getRandomLetter_def Math_random_consumed)
qed

lemma base_letter_ok:
  assumes "or_else (map_of (vowels s) language) (map_of (vowels s) (ascii ''en'')) = Some langVowels"
    and "or_else (map_of (letterFrequencies s) language) (map_of (letterFrequencies s) (ascii ''en'')) = Some f"
    and "langVowels \<noteq> []"
  shows "\<exists>letter. base_letter language vp s = (Inr (Some letter), consumed 2 s)
           \<and> (if shd (Math_random_source s) < vp then letter \<in> set langVowels
               else letter \<in> insert (ascii ''E'') (fst ` set f))"
proof (cases "shd (Math_random_source s) < vp")
  case True
  with getRandomLetter_vowel [of "consumed 1 s" language langVowels f] assms show ?thesis
    by (auto simp: base_letter_def Math_random_consumed numeral_2_eq_2)
next
  case False
  with getRandomLetter_general [of "consumed 1 s" language f] assms show ?thesis
    by (auto simp: base_letter_def Math_random_consumed numeral_2_eq_2)
qed

lemma special_filter_Some:
  "\<exists>special. special_filter (Some f) keys = Inr special \<and> set special \<subseteq> set keys"
  by (induction keys) auto

lemma other_languages_consumed [simp]: "other_languages (consumed n s) language = other_languages s language"
  by (simp add: other_languages_def)

lemma specialLetters_consumed [simp]: "specialLetters (consumed n s) language other = specialLetters s language other"
  by (simp add: specialLetters_def split: option.splits)

lemma other_languages_table:
  "other \<in> set (other_languages s language) \<Longrightarrow> \<exists>t. map_of (letterFrequencies s) other = Some t"
  by (cases "map_of (letterFrequencies s) other") (auto simp: other_languages_def map_of_eq_None_iff)

lemma substitute_special_ok:
  assumes main: "map_of (letterFrequencies s) language = Some f"
    and unit: "draws_in_unit s"
  shows "\<exists>c n. substitute_special language sp letter s = (Inr c, consumed n s)
           \<and> (c = letter \<or> (\<exists>other t. map_of (letterFrequencies s) other = Some t \<and> c \<in> Some ` fst ` set t))"
proof (cases "shd (Math_random_source s) < sp \<and> other_languages s language \<noteq> []")
  case False
  then show ?thesis
    by (auto simp: substitute_special_def Math_random_consumed intro: exI [of _ 1])
next
  case True
  let ?languages = "other_languages s language"
  have u1: "draws_in_unit (consumed 1 s)" using unit by (rule draws_in_unit_consumed)
  obtain other where other: "other \<in> set ?languages"
    and chosen: "js_index ?languages \<lfloor>shd (Math_random_source (consumed 1 s)) * real (length ?languages)\<rfloor> = Some other"
    using js_index_floor [of "shd (Math_random_source (consumed 1 s))" ?languages]
      draws_in_unit_head [OF u1] True by blast
  obtain t where t: "map_of (letterFrequencies s) other = Some t"
    using other_languages_table [OF other] by blast
  obtain special where special: "special_filter (Some f) (map fst t) = Inr special"
    and sub: "set special \<subseteq> fst ` set t"
    using special_filter_Some [of f "map fst t"] by auto
  have sl: "specialLetters s language (Some other) = Inr special"
    using t special main by (simp add: specialLetters_def)
  show ?thesis
  proof (cases "special = []")
    case True
    with \<open>shd (Math_random_source s) < sp \<and> ?languages \<noteq> []\<close> chosen sl show ?thesis
      by (auto simp: substitute_special_def Math_random_consumed intro: exI [of _ 2])
  next
    case False
    have u2: "draws_in_unit (consumed 2 s)" using unit by (rule draws_in_unit_consumed)
    obtain x where x: "x \<in> set special"
      and pick: "js_index special \<lfloor>shd (Math_random_source (consumed 2 s)) * real (length special)\<rfloor> = Some x"
      using js_index_floor [of "shd (Math_random_source (consumed 2 s))" special]
        draws_in_unit_head [OF u2] False by blast
    have "substitute_special language sp letter s = (Inr (Some x), consumed 3 s)"
      using \<open>shd (Math_random_source s) < sp \<and> ?languages \<noteq> []\<close> chosen sl False pick
      by (simp add: substitute_special_def Math_random_consumed numeral_2_eq_2 numeral_3_eq_3)
    moreover have "Some x \<in> Some ` fst ` set t" using x sub by auto
    ultimately show ?thesis using t by blast
  qed
qed


lemma gen_cell_ok:
  assumes main: "map_of (letterFrequencies s) language = Some f"
    and lv: "or_else (map_of (vowels s) language) (map_of (vowels s) (ascii ''en'')) = Some langVowels"
    and ne: "langVowels \<noteq> []"
    and unit: "draws_in_unit s"
  shows "\<exists>letter c n. gen_cell language vp sp s = (Inr c, consumed n s)
           \<and> (if shd (Math_random_source s) < vp then letter \<in> set langVowels
               else letter \<in> insert (ascii ''E'') (fst ` set f))
           \<and> (c = Some letter \<or>
               (shd (Math_random_source (consumed 2 s)) < sp \<and>
                (\<exists>other t. map_of (letterFrequencies s) other = Some t \<and> c \<in> Some ` fst ` set t)))"
proof -
  from main have freq: "or_else (map_of (letterFrequencies s) language)
      (map_of (letterFrequencies s) (ascii ''en'')) = Some f" by simp
  obtain letter where base: "base_letter language vp s = (Inr (Some letter), consumed 2 s)"
    and letter: "if shd (Math_random_source s) < vp then letter \<in> set langVowels
               else letter \<in> insert (ascii ''E'') (fst ` set f)"
    using base_letter_ok [OF lv freq ne] by blast
  have u2: "draws_in_unit (consumed 2 s)" using unit by (rule draws_in_unit_consumed)
  show ?thesis
  proof (cases "shd (Math_random_source (consumed 2 s)) < sp")
    case False
    then have "substitute_special language sp (Some letter) (consumed 2 s) = (Inr (Some letter), consumed 3 s)"
      by (simp add: substitute_special_def Math_random_consumed numeral_2_eq_2 numeral_3_eq_3)
    with base have "gen_cell language vp sp s = (Inr (Some letter), consumed 3 s)"
      by (simp add: gen_cell_def)
    with letter show ?thesis by blast
  next
    case True
    have m2: "map_of (letterFrequencies (consumed 2 s)) language = Some f" using main by simp
    have "\<exists>c n. substitute_special language sp (Some letter) (consumed 2 s) = (Inr c, consumed n (consumed 2 s))
        \<and> (c = Some letter \<or> (\<exists>other t. map_of (letterFrequencies s) other = Some t \<and> c \<in> Some ` fst ` set t))"
      using substitute_special_ok [OF m2 u2, of sp "Some letter"] by (simp del: consumed_consumed)
    then obtain c n where sub: "substitute_special language sp (Some letter) (consumed 2 s) = (Inr c, consumed n (consumed 2 s))"
      and c: "c = Some letter \<or> (\<exists>other t. map_of (letterFrequencies s) other = Some t \<and> c \<in> Some ` fst ` set t)"
      by blast
    from base sub have "gen_cell language vp sp s = (Inr c, consumed (2 + n) s)"
      by (simp add: gen_cell_def)
    with letter c True show ?thesis by blast
  qed
qed

subsection \<open>Invariants of the two loops\<close>

lemma row_loop_invariant:
  assumes step: "\<And>s. I s \<Longrightarrow> \<exists>c n. gen_cell language vp sp s = (Inr c, consumed n s) \<and> P c"
    and inv: "\<And>s n. I s \<Longrightarrow> I (consumed n s)"
    and start: "I s" "list_all P row"
  shows "\<exists>row' n. row_loop j cols language vp sp row s = (Inr row', consumed n s)
      \<and> list_all P row' \<and> length row' = length row + nat (cols - j)"
  using assms
proof (induction j cols language vp sp row s rule: row_loop.induct)
  case (1 j cols language vp sp row s)
  note step = "1.prems"(1) and inv = "1.prems"(2)
  show ?case
  proof (cases "j < cols")
    case False
    then have "row_loop j cols language vp sp row s = (Inr row, consumed 0 s)"
      by (simp add: row_loop.simps)
    moreover from False have "length row = length row + nat (cols - j)" by simp
    ultimately show ?thesis using "1.prems"(4) by blast
  next
    case True
    obtain c n where c: "gen_cell language vp sp s = (Inr c, consumed n s)" and "P c"
      using step [OF "1.prems"(3)] by blast
    have i': "I (consumed n s)" using "1.prems"(3) by (rule inv)
    have all': "list_all P (row @ [c])" using "1.prems"(4) \<open>P c\<close> by simp
    obtain row' m where
      rest: "row_loop (j + 1) cols language vp sp (row @ [c]) (consumed n s) = (Inr row', consumed m (consumed n s))"
      and all: "list_all P row'" and len: "length row' = length (row @ [c]) + nat (cols - (j + 1))"
      using "1.IH" [OF True c [symmetric] refl step inv i' all'] by blast
    from True c rest have "row_loop j cols language vp sp row s = (Inr row', consumed (n + m) s)"
      by (subst row_loop.simps) simp
    moreover from len True have "length row' = length row + nat (cols - j)" by simp
    ultimately show ?thesis using all by blast
  qed
qed

lemma board_loop_invariant:
  assumes step: "\<And>s. I s \<Longrightarrow> \<exists>c n. gen_cell language vp sp s = (Inr c, consumed n s) \<and> P c"
    and inv: "\<And>s n. I s \<Longrightarrow> I (consumed n s)"
    and start: "I s" "list_all (\<lambda>row. list_all P row \<and> length row = nat cols) board"
  shows "\<exists>board' n. board_loop i rows cols language vp sp board s = (Inr board', consumed n s)
      \<and> list_all (\<lambda>row. list_all P row \<and> length row = nat cols) board'
      \<and> length board' = length board + nat (rows - i)"
  using assms
proof (induction i rows cols language vp sp board s rule: board_loop.induct)
  case (1 i rows cols language vp sp board s)
  note step = "1.prems"(1) and inv = "1.prems"(2)
  show ?case
  proof (cases "i < rows")
    case False
    then have "board_loop i rows cols language vp sp board s = (Inr board, consumed 0 s)"
      by (simp add: board_loop.simps)
    moreover from False have "length board = length board + nat (rows - i)" by simp
    ultimately show ?thesis using "1.prems"(4) by blast
  next
    case True
    obtain row n where row: "row_loop 0 cols language vp sp [] s = (Inr row, consumed n s)"
      and "list_all P row" and "length row = length ([]::cell list) + nat (cols - 0)"
      using row_loop_invariant [of I language vp sp P s "[]" 0 cols, OF step inv "1.prems"(3)]
      by auto
    then have ok: "list_all (\<lambda>row. list_all P row \<and> length row = nat cols) (board @ [row])"
      using "1.prems"(4) by simp
    have i': "I (consumed n s)" using "1.prems"(3) by (rule inv)
    obtain board' m where
      rest: "board_loop (i + 1) rows cols language vp sp (board @ [row]) (consumed n s)
               = (Inr board', consumed m (consumed n s))"
      and all: "list_all (\<lambda>row. list_all P row \<and> length row = nat cols) board'"
      and len: "length board' = length (board @ [row]) + nat (rows - (i + 1))"
      using "1.IH" [OF True row [symmetric] refl step inv i' ok] by blast
    from True row rest have "board_loop i rows cols language vp sp board s = (Inr board', consumed (n + m) s)"
      by (subst board_loop.simps) simp
    moreover from len True have "length board' = length board + nat (rows - i)" by simp
    ultimately show ?thesis using all by blast
  qed
qed


subsection \<open>Boards on the tables of the module\<close>

lemma ready_consumed: "ready s \<Longrightarrow> ready (consumed n s)"
  by (simp add: ready_def draws_in_unit_consumed)

lemma initial_keys_nonempty:
  "map_of initial_letterFrequencies other = Some t \<Longrightarrow> [] \<notin> fst ` set t"
  by (auto simp: initial_letterFrequencies_def letterFrequencies_en_def letterFrequencies_es_def
      letterFrequencies_fr_def ascii_def split: if_splits)

lemma initial_tables_supported:
  assumes "language \<in> supported"
  shows "\<exists>f langVowels. map_of initial_letterFrequencies language = Some f
    \<and> or_else (map_of initial_vowels language) (map_of initial_vowels (ascii ''en'')) = Some langVowels
    \<and> langVowels \<noteq> [] \<and> [] \<notin> set langVowels"
  using assms
  by (auto simp: supported_def initial_letterFrequencies_def initial_vowels_def ascii_def)

lemma gen_cell_supported:
  assumes "ready s" "language \<in> supported"
  shows "\<exists>c n. gen_cell language vp sp s = (Inr c, consumed n s) \<and> (\<exists>letter. c = Some letter \<and> letter \<noteq> [])"
proof -
  obtain f langVowels where f: "map_of (letterFrequencies s) language = Some f"
    and lv: "or_else (map_of (vowels s) language) (map_of (vowels s) (ascii ''en'')) = Some langVowels"
    and ne: "langVowels \<noteq> []" and lvne: "[] \<notin> set langVowels"
    using initial_tables_supported [OF assms(2)] assms(1) by (auto simp: ready_def)
  have unit: "draws_in_unit s" using assms(1) by (simp add: ready_def)
  have keys: "[] \<notin> fst ` set f"
    using f assms(1) initial_keys_nonempty [of language f] by (simp add: ready_def)
  obtain letter c n where cell: "gen_cell language vp sp s = (Inr c, consumed n s)"
    and letter: "if shd (Math_random_source s) < vp then letter \<in> set langVowels
               else letter \<in> insert (ascii ''E'') (fst ` set f)"
    and c: "c = Some letter \<or>
               (shd (Math_random_source (consumed 2 s)) < sp \<and>
                (\<exists>other t. map_of (letterFrequencies s) other = Some t \<and> c \<in> Some ` fst ` set t))"
    using gen_cell_ok [OF f lv ne unit, of vp sp] by blast
  have "letter \<noteq> []"
  proof
    assume "letter = []"
    with letter lvne keys show False by (auto simp: ascii_def split: if_splits)
  qed
  moreover have "\<exists>k. c = Some k \<and> k \<noteq> []"
    if t: "map_of (letterFrequencies s) other = Some t" and k: "c \<in> Some ` fst ` set t" for other t
  proof -
    from k obtain k where "c = Some k" and "k \<in> fst ` set t" by blast
    moreover have "[] \<notin> fst ` set t"
      using t assms(1) initial_keys_nonempty [of other t] by (simp add: ready_def)
    ultimately show ?thesis by metis
  qed
  ultimately have "\<exists>letter. c = Some letter \<and> letter \<noteq> []" using c by blast
  with cell show ?thesis by blast
qed

text \<open>
  Claim C3. On the module's tables, with draws in \<open>[0, 1)\<close>, for positive \<open>r\<close> and \<open>c\<close>
  and a language that is \<open>en\<close>, \<open>es\<close> or \<open>fr\<close> (given or by default), whatever the two
  probabilities, \<open>generateBoard(r, c, options)\<close> returns a board of exactly \<open>r\<close> rows, every
  row has exactly \<open>c\<close> cells, and every cell is a non-empty string.
\<close>

theorem generateBoard_dimensions:
  assumes "letterFrequencies s = initial_letterFrequencies" and "vowels s = initial_vowels"
    and "draws_in_unit s"
    and "default_to (ascii ''en'') (opt_language opts) \<in> supported"
    and "0 < r" and "0 < c"
  shows "\<exists>board s'. generateBoard (Some r) (Some c) (Some opts) s = (Inr board, s')
    \<and> length board = nat r
    \<and> (\<forall>row \<in> set board. length row = nat c
         \<and> (\<forall>cell \<in> set row. \<exists>letter. cell = Some letter \<and> letter \<noteq> []))"
proof -
  let ?language = "default_to (ascii ''en'') (opt_language opts)"
  let ?P = "\<lambda>cell::cell. \<exists>letter. cell = Some letter \<and> letter \<noteq> []"
  have start: "ready s" using assms(1-3) by (simp add: ready_def)
  have step: "\<exists>c n. gen_cell ?language vp sp s = (Inr c, consumed n s) \<and> ?P c" if "ready s" for s vp sp
    using gen_cell_supported [OF that assms(4)] .
  let ?vp = "default_to 0.35 (opt_vowelProbability opts)"
  let ?sp = "default_to 0.15 (opt_specialLetterProbability opts)"
  have "\<exists>board n. board_loop 0 r c ?language ?vp ?sp [] s = (Inr board, consumed n s)
      \<and> list_all (\<lambda>row. list_all ?P row \<and> length row = nat c) board
      \<and> length board = length ([]::board) + nat (r - 0)"
    by (rule board_loop_invariant [of ready ?language ?vp ?sp ?P s c "[]" 0 r,
          OF step ready_consumed start]) simp_all
  then obtain board n where run: "board_loop 0 r c ?language ?vp ?sp [] s = (Inr board, consumed n s)"
    and all: "list_all (\<lambda>row. list_all ?P row \<and> length row = nat c) board"
    and len: "length board = length ([]::board) + nat (r - 0)"
    by blast
  from run have "generateBoard (Some r) (Some c) (Some opts) s = (Inr board, consumed n s)"
    by (simp add: generateBoard_def default_to_def)
  moreover from all have "\<forall>row \<in> set board. length row = nat c \<and> (\<forall>cell \<in> set row. ?P cell)"
    by (simp add: list_all_iff)
  ultimately show ?thesis using len by auto
qed


theorem generateBoard_dimensions_witness:
  "draws_in_unit (loaded (sconst (1/2))) \<and> ascii ''fr'' \<in> supported \<and>
   (\<exists>board s'. generateBoard (Some 2) (Some 3)
        (Some \<lparr>opt_language = Some (ascii ''fr''), opt_vowelProbability = None,
               opt_specialLetterProbability = None\<rparr>) (loaded (sconst (1/2))) = (Inr board, s')
      \<and> length board = 2
      \<and> (\<forall>row \<in> set board. length row = 3
           \<and> (\<forall>cell \<in> set row. \<exists>letter. cell = Some letter \<and> letter \<noteq> [])))"
  using generateBoard_dimensions [of "loaded (sconst (1/2))"
      "\<lparr>opt_language = Some (ascii ''fr''), opt_vowelProbability = None,
        opt_specialLetterProbability = None\<rparr>" 2 3]
  by (simp add: loaded_def draws_in_unit_def supported_def default_to_def)

lemma gen_cell_en_vowel:
  assumes "ready s"
  shows "\<exists>c n. gen_cell (ascii ''en'') 1 0 s = (Inr c, consumed n s) \<and> c \<in> Some ` en_vowels"
proof -
  have f: "map_of (letterFrequencies s) (ascii ''en'') = Some letterFrequencies_en"
    using assms by (simp add: ready_def initial_letterFrequencies_def)
  have lv: "or_else (map_of (vowels s) (ascii ''en'')) (map_of (vowels s) (ascii ''en''))
      = Some [ascii ''A'', ascii ''E'', ascii ''I'', ascii ''O'', ascii ''U'', ascii ''Y'']"
    using assms by (simp add: ready_def initial_vowels_def)
  have unit: "draws_in_unit s" using assms by (simp add: ready_def)
  have r1: "shd (Math_random_source s) < 1" using draws_in_unit_head [OF unit] by simp
  have r2: "\<not> shd (Math_random_source (consumed 2 s)) < 0"
    using draws_in_unit_head [OF draws_in_unit_consumed [OF unit, of 2]] by simp
  obtain letter c n where cell: "gen_cell (ascii ''en'') 1 0 s = (Inr c, consumed n s)"
    and letter: "if shd (Math_random_source s) < 1
       then letter \<in> set [ascii ''A'', ascii ''E'', ascii ''I'', ascii ''O'', ascii ''U'', ascii ''Y'']
       else letter \<in> insert (ascii ''E'') (fst ` set letterFrequencies_en)"
    and c: "c = Some letter \<or>
               (shd (Math_random_source (consumed 2 s)) < 0 \<and>
                (\<exists>other t. map_of (letterFrequencies s) other = Some t \<and> c \<in> Some ` fst ` set t))"
    using gen_cell_ok [OF f lv _ unit, of 1 0] by blast
  from c r2 have "c = Some letter" by blast
  moreover from letter r1 have "letter \<in> en_vowels" by (simp add: en_vowels_def)
  ultimately show ?thesis using cell by blast
qed

text \<open>
  Claim C5. On the module's tables, with draws in \<open>[0, 1)\<close>, for every \<open>rows\<close> and \<open>cols\<close>
  (also omitted), \<open>generateBoard\<close> with language \<open>en\<close>, \<open>vowelProbability = 1.0\<close> and
  \<open>specialLetterProbability = 0.0\<close> returns a board whose every cell is one of A, E, I, O, U, Y.
\<close>

theorem generateBoard_vowels_only:
  assumes "letterFrequencies s = initial_letterFrequencies" and "vowels s = initial_vowels"
    and "draws_in_unit s"
  shows "\<exists>board s'. generateBoard rows cols
             (Some \<lparr>opt_language = Some (ascii ''en''), opt_vowelProbability = Some 1,
                    opt_specialLetterProbability = Some 0\<rparr>) s = (Inr board, s')
    \<and> (\<forall>row \<in> set board. \<forall>cell \<in> set row. cell \<in> Some ` en_vowels)"
proof -
  let ?P = "\<lambda>cell::cell. cell \<in> Some ` en_vowels"
  let ?r = "default_to 6 rows" and ?c = "default_to 6 cols"
  have start: "ready s" using assms by (simp add: ready_def)
  have "\<exists>board n. board_loop 0 ?r ?c (ascii ''en'') 1 0 [] s = (Inr board, consumed n s)
      \<and> list_all (\<lambda>row. list_all ?P row \<and> length row = nat ?c) board
      \<and> length board = length ([]::board) + nat (?r - 0)"
    by (rule board_loop_invariant [of ready "ascii ''en''" 1 0 ?P s ?c "[]" 0 ?r,
          OF gen_cell_en_vowel ready_consumed start]) simp_all
  then obtain board n where run: "board_loop 0 ?r ?c (ascii ''en'') 1 0 [] s = (Inr board, consumed n s)"
    and all: "list_all (\<lambda>row. list_all ?P row \<and> length row = nat ?c) board"
    by blast
  from run have "generateBoard rows cols
             (Some \<lparr>opt_language = Some (ascii ''en''), opt_vowelProbability = Some 1,
                    opt_specialLetterProbability = Some 0\<rparr>) s = (Inr board, consumed n s)"
    by (simp add: generateBoard_def default_to_def)
  moreover from all have "\<forall>row \<in> set board. \<forall>cell \<in> set row. ?P cell"
    by (simp add: list_all_iff)
  ultimately show ?thesis by blast
qed

theorem generateBoard_vowels_only_witness:
  "draws_in_unit (loaded (sconst (9/10))) \<and>
   (\<exists>board s'. generateBoard (Some 3) None
             (Some \<lparr>opt_language = Some (ascii ''en''), opt_vowelProbability = Some 1,
                    opt_specialLetterProbability = Some 0\<rparr>) (loaded (sconst (9/10))) = (Inr board, s')
    \<and> (\<forall>row \<in> set board. \<forall>cell \<in> set row. cell \<in> Some ` en_vowels))"
  using generateBoard_vowels_only [of "loaded (sconst (9/10))" "Some 3" None]
  by (simp add: loaded_def draws_in_unit_def)

subsection \<open>Dimensions that are not positive\<close>

lemma row_loop_no_cols: "cols \<le> j \<Longrightarrow> row_loop j cols language vp sp row s = (Inr row, s)"
  by (simp add: row_loop.simps)

lemma board_loop_no_cols:
  "cols \<le> 0 \<Longrightarrow> board_loop i rows cols language vp sp board s
     = (Inr (board @ replicate (nat (rows - i)) []), s)"
proof (induction i rows cols language vp sp board s rule: board_loop.induct)
  case (1 i rows cols language vp sp board s)
  show ?case
  proof (cases "i < rows")
    case False
    then show ?thesis by (simp add: board_loop.simps)
  next
    case True
    have row: "row_loop 0 cols language vp sp [] s = (Inr [], s)"
      using "1.prems" by (rule row_loop_no_cols)
    have "board_loop (i + 1) rows cols language vp sp (board @ [[]]) s
        = (Inr ((board @ [[]]) @ replicate (nat (rows - (i + 1))) []), s)"
      using "1.IH" [OF True row [symmetric] refl "1.prems"] .
    moreover have "nat (rows - i) = Suc (nat (rows - (i + 1)))" using True by simp
    ultimately show ?thesis using True row
      by (subst board_loop.simps) simp
  qed
qed

text \<open>
  Claim C10. For \<open>rows\<close> zero or negative \<open>generateBoard\<close> returns the empty board, and for
  positive \<open>rows\<close> with \<open>cols\<close> zero or negative it returns \<open>rows\<close> empty rows; in both
  cases nothing is thrown and no draw is consumed, whatever the options and the tables.
\<close>

theorem generateBoard_nonpositive_dimensions:
  "(rows \<le> 0 \<longrightarrow> generateBoard (Some rows) cols opts s = (Inr [], s))
   \<and> (0 < rows \<and> c \<le> 0 \<longrightarrow>
        generateBoard (Some rows) (Some c) opts s = (Inr (replicate (nat rows) []), s))"
proof (intro conjI impI)
  assume "rows \<le> 0"
  then show "generateBoard (Some rows) cols opts s = (Inr [], s)"
    by (simp add: generateBoard_def default_to_def board_loop.simps)
next
  assume "0 < rows \<and> c \<le> 0"
  then show "generateBoard (Some rows) (Some c) opts s = (Inr (replicate (nat rows) []), s)"
    using board_loop_no_cols [of c 0 rows _ _ _ "[]" s]
    by (simp add: generateBoard_def default_to_def)
qed

theorem generateBoard_nonpositive_dimensions_witness:
  "generateBoard (Some 0) (Some 4) None (loaded (sconst (1/2))) = (Inr [], loaded (sconst (1/2)))
   \<and> generateBoard (Some (- 3)) None None (loaded (sconst (1/2))) = (Inr [], loaded (sconst (1/2)))
   \<and> generateBoard (Some 2) (Some (- 1)) None (loaded (sconst (1/2)))
       = (Inr [[], []], loaded (sconst (1/2)))"
  using generateBoard_nonpositive_dimensions [of 0 "Some 4" None "loaded (sconst (1/2))" 0]
    generateBoard_nonpositive_dimensions [of "- 3" None None "loaded (sconst (1/2))" 0]
    generateBoard_nonpositive_dimensions [of 2 "Some (- 1)" None "loaded (sconst (1/2))" "- 1"]
  by (simp add: numeral_2_eq_2)


subsection \<open>Scoring\<close>

lemma commonScoring_positive: "(k, v) \<in> set commonScoring \<Longrightarrow> 0 < v"
  by (auto simp: commonScoring_def)

lemma getLetterPoints_cases:
  "getLetterPoints letter language =
     (if 1 < length letter then 8
      else case map_of commonScoring letter of None \<Rightarrow> 8 | Some points \<Rightarrow> points)"
  by (auto simp: getLetterPoints_def Let_def split: option.splits
      dest: map_of_SomeD commonScoring_positive)

text \<open>
  Claim C8. Scoring does not depend on the language: for every letter and every two
  language arguments (a known code, an unknown code, or none), \<open>getLetterPoints\<close> returns
  the same value.
\<close>

theorem getLetterPoints_language_invariant:
  "getLetterPoints letter l1 = getLetterPoints letter l2"
  by (simp add: getLetterPoints_def Let_def)

text \<open>
  Claim C7. \<open>getLetterPoints\<close> returns 8 when the letter is longer than one code unit or
  is not a key of the scoring table, and the table's value otherwise; it gives 10 for Q,
  8 for the Spanish N with tilde and 8 for the at sign; every value returned is positive.
\<close>

theorem getLetterPoints_table:
  "(1 < length letter \<or> letter \<notin> fst ` set commonScoring \<longrightarrow> getLetterPoints letter language = 8)
   \<and> (\<not> (1 < length letter \<or> letter \<notin> fst ` set commonScoring) \<longrightarrow>
        map_of commonScoring letter = Some (getLetterPoints letter language))
   \<and> getLetterPoints (ascii ''Q'') (Some (ascii ''en'')) = 10
   \<and> getLetterPoints [0xD1] (Some (ascii ''es'')) = 8
   \<and> getLetterPoints (ascii ''@'') (Some (ascii ''en'')) = 8
   \<and> 0 < getLetterPoints letter language"
proof (intro conjI impI)
  assume "1 < length letter \<or> letter \<notin> fst ` set commonScoring"
  then show "getLetterPoints letter language = 8"
    by (auto simp: getLetterPoints_cases map_of_eq_None_iff [symmetric])
next
  assume "\<not> (1 < length letter \<or> letter \<notin> fst ` set commonScoring)"
  then obtain points where "map_of commonScoring letter = Some points" and "\<not> 1 < length letter"
    by (cases "map_of commonScoring letter") (auto simp: map_of_eq_None_iff)
  then show "map_of commonScoring letter = Some (getLetterPoints letter language)"
    by (simp add: getLetterPoints_cases)
next
  show "getLetterPoints (ascii ''Q'') (Some (ascii ''en'')) = 10"
    by (simp add: getLetterPoints_cases commonScoring_def ascii_def)
next
  show "getLetterPoints [0xD1] (Some (ascii ''es'')) = 8"
    by (simp add: getLetterPoints_cases commonScoring_def ascii_def)
next
  show "getLetterPoints (ascii ''@'') (Some (ascii ''en'')) = 8"
    by (simp add: getLetterPoints_cases commonScoring_def ascii_def)
next
  show "0 < getLetterPoints letter language"
    by (auto simp: getLetterPoints_cases split: option.splits dest: map_of_SomeD commonScoring_positive)
qed

theorem getLetterPoints_table_witness:
  "getLetterPoints (ascii ''QU'') None = 8
   \<and> getLetterPoints (ascii ''?'') None = 8
   \<and> map_of commonScoring (ascii ''K'') = Some (getLetterPoints (ascii ''K'') None)
   \<and> getLetterPoints (ascii ''K'') None = 5"
proof -
  have long: "1 < length (ascii ''QU'') \<or> ascii ''QU'' \<notin> fst ` set commonScoring"
    by (simp add: ascii_def)
  have absent: "1 < length (ascii ''?'') \<or> ascii ''?'' \<notin> fst ` set commonScoring"
    by (simp add: ascii_def commonScoring_def)
  have present: "\<not> (1 < length (ascii ''K'') \<or> ascii ''K'' \<notin> fst ` set commonScoring)"
    by (simp add: ascii_def commonScoring_def)
  have k: "map_of commonScoring (ascii ''K'') = Some 5"
    by (simp add: ascii_def commonScoring_def)
  from long absent present k
    getLetterPoints_table [of "ascii ''QU''" None]
    getLetterPoints_table [of "ascii ''?''" None]
    getLetterPoints_table [of "ascii ''K''" None]
  show ?thesis by simp
qed

subsection \<open>What a call leaves of the state\<close>

lemma getRandomLetter_frame: "\<exists>n. snd (getRandomLetter language ensureVowel s) = consumed n s"
proof -
  have "snd (getRandomLetter language ensureVowel s) = consumed 0 s
      \<or> snd (getRandomLetter language ensureVowel s) = consumed 1 s"
    by (simp add: getRandomLetter_def Math_random_consumed Let_def
        split: option.splits sum.splits prod.splits)
  then show ?thesis by blast
qed

lemma substitute_special_frame: "\<exists>n. snd (substitute_special language sp letter s) = consumed n s"
proof -
  have "snd (substitute_special language sp letter s) = consumed 1 s
      \<or> snd (substitute_special language sp letter s) = consumed 2 s
      \<or> snd (substitute_special language sp letter s) = consumed 3 s"
    by (simp add: substitute_special_def Math_random_consumed Let_def numeral_2_eq_2 numeral_3_eq_3
        split: option.splits sum.splits prod.splits)
  then show ?thesis by blast
qed

lemma base_letter_frame: "\<exists>n. snd (base_letter language vp s) = consumed n s"
proof -
  obtain n where "snd (getRandomLetter language (shd (Math_random_source s) < vp) (consumed 1 s))
      = consumed n (consumed 1 s)"
    using getRandomLetter_frame by blast
  then have "snd (base_letter language vp s) = consumed (1 + n) s"
    by (simp add: base_letter_def Math_random_consumed)
  then show ?thesis by blast
qed

lemma gen_cell_frame: "\<exists>n. snd (gen_cell language vp sp s) = consumed n s"
proof -
  obtain r s1 where base: "base_letter language vp s = (r, s1)" by (cases "base_letter language vp s")
  with base_letter_frame [of language vp s] obtain n where s1: "s1 = consumed n s" by auto
  show ?thesis
  proof (cases r)
    case (Inl e)
    with base s1 have "snd (gen_cell language vp sp s) = consumed n s" by (simp add: gen_cell_def)
    then show ?thesis by blast
  next
    case (Inr letter)
    obtain m where "snd (substitute_special language sp letter s1) = consumed m s1"
      using substitute_special_frame by blast
    with base s1 Inr have "snd (gen_cell language vp sp s) = consumed (n + m) s"
      by (simp add: gen_cell_def)
    then show ?thesis by blast
  qed
qed

lemma row_loop_frame: "\<exists>n. snd (row_loop j cols language vp sp row s) = consumed n s"
proof (induction j cols language vp sp row s rule: row_loop.induct)
  case (1 j cols language vp sp row s)
  show ?case
  proof (cases "j < cols")
    case False
    then have "snd (row_loop j cols language vp sp row s) = consumed 0 s"
      by (simp add: row_loop.simps)
    then show ?thesis by blast
  next
    case True
    obtain r s1 where cell: "gen_cell language vp sp s = (r, s1)" by (cases "gen_cell language vp sp s")
    with gen_cell_frame [of language vp sp s] obtain n where s1: "s1 = consumed n s" by auto
    show ?thesis
    proof (cases r)
      case (Inl e)
      with True cell s1 have "snd (row_loop j cols language vp sp row s) = consumed n s"
        by (subst row_loop.simps) simp
      then show ?thesis by blast
    next
      case (Inr letter)
      obtain m where "snd (row_loop (j + 1) cols language vp sp (row @ [letter]) s1) = consumed m s1"
        using "1.IH" [OF True cell [symmetric] Inr] by blast
      with True cell s1 Inr have "snd (row_loop j cols language vp sp row s) = consumed (n + m) s"
        by (subst row_loop.simps) simp
      then show ?thesis by blast
    qed
  qed
qed

lemma board_loop_frame: "\<exists>n. snd (board_loop i rows cols language vp sp board s) = consumed n s"
proof (induction i rows cols language vp sp board s rule: board_loop.induct)
  case (1 i rows cols language vp sp board s)
  show ?case
  proof (cases "i < rows")
    case False
    then have "snd (board_loop i rows cols language vp sp board s) = consumed 0 s"
      by (simp add: board_loop.simps)
    then show ?thesis by blast
  next
    case True
    obtain r s1 where row: "row_loop 0 cols language vp sp [] s = (r, s1)"
      by (cases "row_loop 0 cols language vp sp [] s")
    with row_loop_frame [of 0 cols language vp sp "[]" s] obtain n where s1: "s1 = consumed n s" by auto
    show ?thesis
    proof (cases r)
      case (Inl e)
      with True row s1 have "snd (board_loop i rows cols language vp sp board s) = consumed n s"
        by (subst board_loop.simps) simp
      then show ?thesis by blast
    next
      case (Inr cells)
      obtain m where "snd (board_loop (i + 1) rows cols language vp sp (board @ [cells]) s1) = consumed m s1"
        using "1.IH" [OF True row [symmetric] Inr] by blast
      with True row s1 Inr have "snd (board_loop i rows cols language vp sp board s) = consumed (n + m) s"
        by (subst board_loop.simps) simp
      then show ?thesis by blast
    qed
  qed
qed

lemma generateBoard_frame: "\<exists>n. snd (generateBoard rows cols opts s) = consumed n s"
  by (simp add: generateBoard_def Let_def board_loop_frame)

lemma generateDailyPuzzle_frame:
  "\<exists>n. snd (generateDailyPuzzle today s) = consumed n (s\<lparr>Math_seedrandom := Some (daily_seed today)\<rparr>)"
  by (simp add: generateDailyPuzzle_def Let_def generateBoard_frame)

lemma snd_case_result:
  "snd (case p of (Inl e, s1) \<Rightarrow> (f e, s1) | (Inr v, s1) \<Rightarrow> (g v, s1)) = snd p"
  by (auto split: prod.splits sum.splits)

lemma run_state: "\<exists>n seed. snd (run call s) = consumed n (s\<lparr>Math_seedrandom := seed\<rparr>)"
proof (cases call)
  case (GetRandomLetter language ensureVowel)
  obtain n where "snd (getRandomLetter language ensureVowel s) = consumed n s"
    using getRandomLetter_frame by blast
  with GetRandomLetter
  have "snd (run call s) = consumed n (s\<lparr>Math_seedrandom := Math_seedrandom s\<rparr>)"
    by (simp add: snd_case_result)
  then show ?thesis by blast
next
  case (GenerateBoard rows cols opts)
  obtain n where "snd (generateBoard rows cols opts s) = consumed n s"
    using generateBoard_frame by blast
  with GenerateBoard
  have "snd (run call s) = consumed n (s\<lparr>Math_seedrandom := Math_seedrandom s\<rparr>)"
    by (simp add: snd_case_result)
  then show ?thesis by blast
next
  case (GenerateDailyPuzzle today)
  obtain n where "snd (generateDailyPuzzle today s)
      = consumed n (s\<lparr>Math_seedrandom := Some (daily_seed today)\<rparr>)"
    using generateDailyPuzzle_frame by blast
  with GenerateDailyPuzzle
  have "snd (run call s) = consumed n (s\<lparr>Math_seedrandom := Some (daily_seed today)\<rparr>)"
    by (simp add: snd_case_result)
  then show ?thesis by blast
next
  case (GetLetterPoints letter language)
  then have "snd (run call s) = consumed 0 (s\<lparr>Math_seedrandom := Math_seedrandom s\<rparr>)"
    by simp
  then show ?thesis by blast
qed

text \<open>
  Claim C9. No operation of the module writes the tables: after \<open>getRandomLetter\<close>,
  \<open>generateBoard\<close>, \<open>generateDailyPuzzle\<close> or \<open>getLetterPoints\<close>, from any state and with
  any arguments, whether it returns or throws, \<open>letterFrequencies\<close> and \<open>vowels\<close> are what
  they were before the call. The normalization of the vowel path divides the entries of
  the local \<open>vowelFreq\<close>.
\<close>

theorem tables_unchanged:
  "letterFrequencies (snd (run call s)) = letterFrequencies s
   \<and> vowels (snd (run call s)) = vowels s"
proof -
  obtain n seed where "snd (run call s) = consumed n (s\<lparr>Math_seedrandom := seed\<rparr>)"
    using run_state by blast
  then show ?thesis by simp
qed

subsection \<open>Boards from a constant random source\<close>

lemmas tables_defs = initial_letterFrequencies_def initial_vowels_def letterFrequencies_en_def
  letterFrequencies_es_def letterFrequencies_fr_def ascii_def

lemmas cell_defs = gen_cell_def base_letter_def substitute_special_def Math_random_def
  getRandomLetter_def normalize_def other_languages_def js_index_def specialLetters_def Let_def

lemma row_loop_fixed:
  assumes "gen_cell language vp sp s = (Inr c, s)"
  shows "row_loop j cols language vp sp row s = (Inr (row @ replicate (nat (cols - j)) c), s)"
  using assms
proof (induction j cols language vp sp row s rule: row_loop.induct)
  case (1 j cols language vp sp row s)
  show ?case
  proof (cases "j < cols")
    case False
    then show ?thesis by (simp add: row_loop.simps)
  next
    case True
    have "row_loop (j + 1) cols language vp sp (row @ [c]) s
        = (Inr ((row @ [c]) @ replicate (nat (cols - (j + 1))) c), s)"
      using "1.IH" [OF True "1.prems" [symmetric] refl "1.prems"] .
    moreover have "nat (cols - j) = Suc (nat (cols - (j + 1)))" using True by simp
    ultimately show ?thesis using True "1.prems"
      by (subst row_loop.simps) simp
  qed
qed

lemma board_loop_fixed:
  assumes "gen_cell language vp sp s = (Inr c, s)"
  shows "board_loop i rows cols language vp sp board s
    = (Inr (board @ replicate (nat (rows - i)) (replicate (nat cols) c)), s)"
  using assms
proof (induction i rows cols language vp sp board s rule: board_loop.induct)
  case (1 i rows cols language vp sp board s)
  have row: "row_loop 0 cols language vp sp [] s = (Inr (replicate (nat cols) c), s)"
    using row_loop_fixed [OF "1.prems", of 0 cols "[]"] by simp
  show ?case
  proof (cases "i < rows")
    case False
    then show ?thesis by (simp add: board_loop.simps)
  next
    case True
    have "board_loop (i + 1) rows cols language vp sp (board @ [replicate (nat cols) c]) s
        = (Inr ((board @ [replicate (nat cols) c])
             @ replicate (nat (rows - (i + 1))) (replicate (nat cols) c)), s)"
      using "1.IH" [OF True row [symmetric] refl "1.prems"] .
    moreover have "nat (rows - i) = Suc (nat (rows - (i + 1)))" using True by simp
    ultimately show ?thesis using True row
      by (subst board_loop.simps) simp
  qed
qed

text \<open>
  Claim C1 says that two calls of \<open>generateDailyPuzzle()\<close> on the same calendar date return
  identical boards. The code stores the seed in \<open>Math.seedrandom\<close>, which \<open>Math.random()\<close>
  never reads: on the same date, whatever it is, a call in which every draw is 0.1 returns
  the board of 36 letters N with tilde and a call in which every draw is 0.5 returns the
  board of 36 letters L.
\<close>

theorem generateDailyPuzzle_same_date_two_boards:
  "fst (generateDailyPuzzle today (loaded (sconst (1/10))))
     = Inr (replicate 6 (replicate 6 (Some [0xD1])))
   \<and> fst (generateDailyPuzzle today (loaded (sconst (1/2))))
     = Inr (replicate 6 (replicate 6 (Some (ascii ''L''))))
   \<and> fst (generateDailyPuzzle today (loaded (sconst (1/10))))
     \<noteq> fst (generateDailyPuzzle today (loaded (sconst (1/2))))"
proof -
  let ?seeded = "\<lambda>x. (loaded (sconst x))\<lparr>Math_seedrandom := Some (daily_seed today)\<rparr>"
  have a: "gen_cell (ascii ''en'') 0.4 0.2 (?seeded (1/10)) = (Inr (Some [0xD1]), ?seeded (1/10))"
    by (simp add: cell_defs loaded_def tables_defs)
  have b: "gen_cell (ascii ''en'') 0.4 0.2 (?seeded (1/2)) = (Inr (Some (ascii ''L'')), ?seeded (1/2))"
    by (simp add: cell_defs loaded_def tables_defs)
  have x: "fst (generateDailyPuzzle today (loaded (sconst (1/10))))
     = Inr (replicate 6 (replicate 6 (Some [0xD1])))"
    using board_loop_fixed [OF a, of 0 6 6 "[]"]
    by (simp add: generateDailyPuzzle_def generateBoard_def default_to_def Let_def)
  have y: "fst (generateDailyPuzzle today (loaded (sconst (1/2))))
     = Inr (replicate 6 (replicate 6 (Some (ascii ''L''))))"
    using board_loop_fixed [OF b, of 0 6 6 "[]"]
    by (simp add: generateDailyPuzzle_def generateBoard_def default_to_def Let_def)
  have "replicate 6 (replicate 6 (Some [0xD1::16 word])) \<noteq> replicate 6 (replicate 6 (Some (ascii ''L'')))"
    by (simp add: ascii_def)
  with x y show ?thesis by simp
qed

text \<open>
  Claim C2 says that \<open>generateBoard\<close> returns normally for every language code. For the
  unknown code \<open>de\<close> the filter of line 132 reads a property of
  \<open>letterFrequencies['de']\<close>, which is \<open>undefined\<close>, and the call throws a TypeError as
  soon as a cell enters the substitution: with \<open>specialLetterProbability = 1.0\<close> on draws
  of 0.5, and with every option but the language left to its default on draws of 0.1.
\<close>

theorem generateBoard_unknown_language_throws:
  "fst (generateBoard (Some 1) (Some 1)
         (Some \<lparr>opt_language = Some (ascii ''de''), opt_vowelProbability = None,
                opt_specialLetterProbability = Some 1\<rparr>) (loaded (sconst (1/2)))) = Inl TypeError
   \<and> fst (generateBoard None None
         (Some \<lparr>opt_language = Some (ascii ''de''), opt_vowelProbability = None,
                opt_specialLetterProbability = None\<rparr>) (loaded (sconst (1/10)))) = Inl TypeError"
  by (simp add: generateBoard_def default_to_def board_loop.simps row_loop.simps cell_defs
      loaded_def tables_defs)

subsection \<open>The empty special set\<close>

lemma substitute_special_no_others:
  "other_languages s language = [] \<Longrightarrow>
     substitute_special language sp letter s = (Inr letter, consumed 1 s)"
  by (simp add: substitute_special_def Math_random_consumed)

lemma substitute_special_no_special:
  assumes "specialLetters s language (chosen_otherLang (consumed 1 s) language) = Inr []"
    and "other_languages s language \<noteq> []"
  shows "substitute_special language sp letter s
    = (Inr letter, if shd (Math_random_source s) < sp then consumed 2 s else consumed 1 s)"
  using assms
  by (simp add: substitute_special_def Math_random_consumed chosen_otherLang_def numeral_2_eq_2)

lemma gen_cell_no_others:
  assumes "other_languages s language = []"
  shows "gen_cell language vp sp1 s = gen_cell language vp sp2 s"
proof -
  obtain r s1 where base: "base_letter language vp s = (r, s1)" by (cases "base_letter language vp s")
  with base_letter_frame [of language vp s] obtain n where s1: "s1 = consumed n s" by auto
  show ?thesis
  proof (cases r)
    case (Inl e)
    with base show ?thesis by (simp add: gen_cell_def)
  next
    case (Inr letter)
    have "other_languages s1 language = []" using assms s1 by simp
    then have "substitute_special language sp1 letter s1 = substitute_special language sp2 letter s1"
      by (simp add: substitute_special_no_others)
    with base Inr show ?thesis by (simp add: gen_cell_def)
  qed
qed

lemma row_loop_no_others:
  assumes "other_languages s language = []"
  shows "row_loop j cols language vp sp1 row s = row_loop j cols language vp sp2 row s"
  using assms
proof (induction j cols language vp sp1 row s rule: row_loop.induct)
  case (1 j cols language vp sp1 row s)
  have same: "gen_cell language vp sp1 s = gen_cell language vp sp2 s"
    using "1.prems" by (rule gen_cell_no_others)
  show ?case
  proof (cases "j < cols")
    case False
    then show ?thesis by (simp add: row_loop.simps)
  next
    case True
    obtain r s1 where cell: "gen_cell language vp sp1 s = (r, s1)" by (cases "gen_cell language vp sp1 s")
    with gen_cell_frame [of language vp sp1 s] obtain n where s1: "s1 = consumed n s" by auto
    show ?thesis
    proof (cases r)
      case (Inl e)
      with True cell same show ?thesis
        by (simp add: row_loop.simps [of j cols language vp sp1] row_loop.simps [of j cols language vp sp2])
    next
      case (Inr letter)
      have "other_languages s1 language = []" using "1.prems" s1 by simp
      then have "row_loop (j + 1) cols language vp sp1 (row @ [letter]) s1
          = row_loop (j + 1) cols language vp sp2 (row @ [letter]) s1"
        using "1.IH" [OF True cell [symmetric] Inr] by blast
      with True cell same Inr show ?thesis
        by (simp add: row_loop.simps [of j cols language vp sp1] row_loop.simps [of j cols language vp sp2])
    qed
  qed
qed

lemma board_loop_no_others:
  assumes "other_languages s language = []"
  shows "board_loop i rows cols language vp sp1 board s = board_loop i rows cols language vp sp2 board s"
  using assms
proof (induction i rows cols language vp sp1 board s rule: board_loop.induct)
  case (1 i rows cols language vp sp1 board s)
  have same: "row_loop 0 cols language vp sp1 [] s = row_loop 0 cols language vp sp2 [] s"
    using "1.prems" by (rule row_loop_no_others)
  show ?case
  proof (cases "i < rows")
    case False
    then show ?thesis by (simp add: board_loop.simps)
  next
    case True
    obtain r s1 where row: "row_loop 0 cols language vp sp1 [] s = (r, s1)"
      by (cases "row_loop 0 cols language vp sp1 [] s")
    with row_loop_frame [of 0 cols language vp sp1 "[]" s] obtain n where s1: "s1 = consumed n s" by auto
    show ?thesis
    proof (cases r)
      case (Inl e)
      with True row same show ?thesis
        by (simp add: board_loop.simps [of i rows cols language vp sp1]
            board_loop.simps [of i rows cols language vp sp2])
    next
      case (Inr cells)
      have "other_languages s1 language = []" using "1.prems" s1 by simp
      then have "board_loop (i + 1) rows cols language vp sp1 (board @ [cells]) s1
          = board_loop (i + 1) rows cols language vp sp2 (board @ [cells]) s1"
        using "1.IH" [OF True row [symmetric] Inr] by blast
      with True row same Inr show ?thesis
        by (simp add: board_loop.simps [of i rows cols language vp sp1]
            board_loop.simps [of i rows cols language vp sp2])
    qed
  qed
qed

text \<open>
  Claim C6. In the substitution step of a cell (lines 124-138), when no language other than
  the board's is configured, or when the special letters of the other language that is
  chosen are none, the cell is the base letter that the step received, so that the cell
  that the loop body (lines 117-140) pushes is the base letter sampled on lines 118-121.
  With no other language configured \<open>generateBoard\<close> with \<open>specialLetterProbability = 1.0\<close> returns what
  it returns with \<open>specialLetterProbability = 0.0\<close>, the board of the base letters, and
  leaves the same state.
\<close>

theorem empty_special_set_keeps_base_letter:
  "(other_languages s language = [] \<longrightarrow>
      fst (substitute_special language sp letter s) = Inr letter)
   \<and> (other_languages s language \<noteq> []
        \<and> specialLetters s language (chosen_otherLang (consumed 1 s) language) = Inr [] \<longrightarrow>
      fst (substitute_special language sp letter s) = Inr letter)
   \<and> (other_languages s (default_to (ascii ''en'') (opt_language opts)) = [] \<longrightarrow>
      generateBoard rows cols (Some (opts\<lparr>opt_specialLetterProbability := Some 1\<rparr>)) s
        = generateBoard rows cols (Some (opts\<lparr>opt_specialLetterProbability := Some 0\<rparr>)) s)
   \<and> (base_letter language vp s = (Inr letter, s1)
        \<and> (other_languages s language = []
             \<or> specialLetters s language (chosen_otherLang (consumed 1 s1) language) = Inr []) \<longrightarrow>
      fst (gen_cell language vp sp s) = Inr letter)"
proof (intro conjI impI)
  assume "other_languages s language = []"
  then show "fst (substitute_special language sp letter s) = Inr letter"
    by (simp add: substitute_special_no_others)
next
  assume "other_languages s language \<noteq> []
        \<and> specialLetters s language (chosen_otherLang (consumed 1 s) language) = Inr []"
  then show "fst (substitute_special language sp letter s) = Inr letter"
    by (simp add: substitute_special_no_special)
next
  assume "other_languages s (default_to (ascii ''en'') (opt_language opts)) = []"
  then show "generateBoard rows cols (Some (opts\<lparr>opt_specialLetterProbability := Some 1\<rparr>)) s
        = generateBoard rows cols (Some (opts\<lparr>opt_specialLetterProbability := Some 0\<rparr>)) s"
    using board_loop_no_others [of s "default_to (ascii ''en'') (opt_language opts)"
        0 "default_to 6 rows" "default_to 6 cols" _ 1 "[]" 0]
    by (simp add: generateBoard_def default_to_def Let_def)
next
  assume a: "base_letter language vp s = (Inr letter, s1)
        \<and> (other_languages s language = []
             \<or> specialLetters s language (chosen_otherLang (consumed 1 s1) language) = Inr [])"
  then have base: "base_letter language vp s = (Inr letter, s1)" by simp
  with base_letter_frame [of language vp s] obtain n where s1: "s1 = consumed n s" by auto
  have cell: "gen_cell language vp sp s = substitute_special language sp letter s1"
    using base by (simp add: gen_cell_def)
  show "fst (gen_cell language vp sp s) = Inr letter"
  proof (cases "other_languages s language = []")
    case True
    then have "other_languages s1 language = []" using s1 by simp
    then show ?thesis using cell by (simp add: substitute_special_no_others)
  next
    case False
    then have others: "other_languages s1 language \<noteq> []" using s1 by simp
    from False a have "specialLetters s language (chosen_otherLang (consumed 1 s1) language) = Inr []"
      by simp
    then have "specialLetters s1 language (chosen_otherLang (consumed 1 s1) language) = Inr []"
      using s1 by simp
    then show ?thesis using others cell by (simp add: substitute_special_no_special)
  qed
qed

theorem empty_special_set_keeps_base_letter_witness:
  "other_languages (single_language (sconst (1/2))) (ascii ''en'') = []
   \<and> fst (substitute_special (ascii ''en'') 1 (Some (ascii ''T'')) (single_language (sconst (1/2))))
       = Inr (Some (ascii ''T''))
   \<and> other_languages (loaded (sconst (1/4))) (ascii ''es'') \<noteq> []
   \<and> chosen_otherLang (consumed 1 (loaded (sconst (1/4)))) (ascii ''es'') = Some (ascii ''en'')
   \<and> specialLetters (loaded (sconst (1/4))) (ascii ''es'') (Some (ascii ''en'')) = Inr []
   \<and> fst (substitute_special (ascii ''es'') 1 (Some (ascii ''T'')) (loaded (sconst (1/4))))
       = Inr (Some (ascii ''T''))
   \<and> generateBoard (Some 2) (Some 2)
        (Some \<lparr>opt_language = None, opt_vowelProbability = None,
               opt_specialLetterProbability = Some 1\<rparr>) (single_language (sconst (1/2)))
     = generateBoard (Some 2) (Some 2)
        (Some \<lparr>opt_language = None, opt_vowelProbability = None,
               opt_specialLetterProbability = Some 0\<rparr>) (single_language (sconst (1/2)))
   \<and> base_letter (ascii ''es'') 0 (loaded (sconst (1/4)))
       = (Inr (Some (ascii ''E'')), loaded (sconst (1/4)))
   \<and> fst (gen_cell (ascii ''es'') 0 1 (loaded (sconst (1/4)))) = Inr (Some (ascii ''E''))"
proof -
  have none: "other_languages (single_language (sconst (1/2))) (ascii ''en'') = []"
    by (simp add: other_languages_def single_language_def)
  have some: "other_languages (loaded (sconst (1/4))) (ascii ''es'') \<noteq> []"
    by (simp add: other_languages_def loaded_def initial_letterFrequencies_def ascii_def)
  have chosen: "chosen_otherLang (consumed 1 (loaded (sconst (1/4)))) (ascii ''es'') = Some (ascii ''en'')"
    by (simp add: chosen_otherLang_def other_languages_def loaded_def initial_letterFrequencies_def
        ascii_def js_index_def)
  have empty: "specialLetters (loaded (sconst (1/4))) (ascii ''es'') (Some (ascii ''en'')) = Inr []"
    by (simp add: specialLetters_def loaded_def initial_letterFrequencies_def
        letterFrequencies_en_def letterFrequencies_es_def ascii_def)
  have base: "base_letter (ascii ''es'') 0 (loaded (sconst (1/4)))
      = (Inr (Some (ascii ''E'')), loaded (sconst (1/4)))"
    by (simp add: base_letter_def getRandomLetter_def Math_random_def loaded_def
        initial_letterFrequencies_def letterFrequencies_es_def ascii_def)
  from none some chosen empty base
    empty_special_set_keeps_base_letter [of "loaded (sconst (1/4))" "ascii ''es''" 1
      "Some (ascii ''E'')" _ _ _ 0 "loaded (sconst (1/4))"]
    empty_special_set_keeps_base_letter [of "single_language (sconst (1/2))" "ascii ''en''" 1
      "Some (ascii ''T'')"
      "\<lparr>opt_language = None, opt_vowelProbability = None, opt_specialLetterProbability = None\<rparr>"
      "Some 2" "Some 2"]
    empty_special_set_keeps_base_letter [of "loaded (sconst (1/4))" "ascii ''es''" 1
      "Some (ascii ''T'')"]
  show ?thesis by (simp add: default_to_def)
qed

subsection \<open>The sampler against its specification\<close>

lemma find_map_index: "find P (map f xs) = map_option f (find (P \<circ> f) xs)"
  by (induction xs) simp_all





lemma update_fresh: "k \<notin> fst ` set al \<Longrightarrow> AList.update k v al = al @ [(k, v)]"
  by (induction al) auto

lemma restrict_to_keys: "fst ` set (restrict_to vs f) \<subseteq> set vs"
  by (induction vs) (auto simp: restrict_to_def split: option.splits if_splits)

lemma restrict_to_Cons:
  "restrict_to (v # vs) f =
     (case map_of f v of
        Some w \<Rightarrow> if w \<noteq> 0 then (v, w) # restrict_to vs f else restrict_to vs f
      | None \<Rightarrow> restrict_to vs f)"
  by (simp add: restrict_to_def split: option.splits)

lemma extract_vowels_restrict:
  assumes "distinct vs" and "set vs \<inter> fst ` set vowelFreq = {}"
  shows "extract_vowels (Some f) vs (vowelFreq, totalFreq)
    = Inr (vowelFreq @ restrict_to vs f, foldl (+) totalFreq (map snd (restrict_to vs f)))"
  using assms
proof (induction vs arbitrary: vowelFreq totalFreq)
  case Nil
  show ?case by (simp add: restrict_to_def)
next
  case (Cons v vs)
  have d: "distinct vs" and fresh: "v \<notin> fst ` set vowelFreq" and nv: "v \<notin> set vs"
    using Cons.prems by auto
  show ?case
  proof (cases "map_of f v")
    case None
    have "set vs \<inter> fst ` set vowelFreq = {}" using Cons.prems(2) by auto
    with None Cons.IH [OF d, of vowelFreq totalFreq] show ?thesis
      by (simp add: restrict_to_Cons)
  next
    case (Some w)
    show ?thesis
    proof (cases "w = 0")
      case True
      have "set vs \<inter> fst ` set vowelFreq = {}" using Cons.prems(2) by auto
      with Some True Cons.IH [OF d, of vowelFreq totalFreq] show ?thesis
        by (simp add: restrict_to_Cons)
    next
      case False
      have "set vs \<inter> fst ` set (vowelFreq @ [(v, w)]) = {}" using Cons.prems(2) nv by auto
      with Some False Cons.IH [OF d, of "vowelFreq @ [(v, w)]" "totalFreq + w"] fresh
      show ?thesis
        by (simp add: restrict_to_Cons update_fresh)
    qed
  qed
qed

lemma vowelFreq_normalized_restrict:
  "distinct vs \<Longrightarrow> vowelFreq_normalized f vs = divided_by_total (restrict_to vs f)"
  by (simp add: vowelFreq_normalized_def extract_vowels_restrict normalize_def divided_by_total_def
      total_weight_def)



lemma loaded_read_real: "loaded_read (\<lambda>a b. real a / real b) draws = loaded draws"
  by (simp add: loaded_read_def loaded_def initial_letterFrequencies_read_def
      initial_letterFrequencies_def letterFrequencies_en_read_def letterFrequencies_es_read_def
      letterFrequencies_fr_read_def letterFrequencies_en_def letterFrequencies_es_def
      letterFrequencies_fr_def)




end
